theory Spec2Isabelle
  imports Complex_Main "HOL-Library.Char_ord" "HOL-Library.List_Lexorder"
begin

section \<open>Numbers\<close>

text \<open>
  The arrays of \<^verbatim>\<open>analysis_tools.py\<close> hold float64 values. They are modelled by
  \<open>npfloat\<close>: a finite value carries a real number and arithmetic on finite values is
  exact (rounding and overflow are not modelled); the IEEE special values are kept, with
  numpy's results for them: \<open>0/0\<close> is \<open>NaN\<close>, \<open>x/0\<close> is an infinity for \<open>x \<noteq> 0\<close>
  (a warning, never an exception), \<open>inf - inf\<close> and \<open>0 * inf\<close> are \<open>NaN\<close>, and \<open>NaN\<close> is
  absorbing. Zero has no sign: \<open>-0.0\<close> is identified with \<open>0.0\<close>.
\<close>

datatype npfloat = Fin real | PInf | NInf | NaN

instantiation npfloat :: "{zero, plus, times, divide}"
begin

definition zero_npfloat :: npfloat where
  "zero_npfloat = Fin 0"

fun plus_npfloat :: "npfloat \<Rightarrow> npfloat \<Rightarrow> npfloat" where
  "plus_npfloat (Fin a) (Fin b) = Fin (a + b)"
| "plus_npfloat NaN _ = NaN"
| "plus_npfloat _ NaN = NaN"
| "plus_npfloat PInf NInf = NaN"
| "plus_npfloat NInf PInf = NaN"
| "plus_npfloat PInf _ = PInf"
| "plus_npfloat _ PInf = PInf"
| "plus_npfloat NInf _ = NInf"
| "plus_npfloat _ NInf = NInf"

fun times_npfloat :: "npfloat \<Rightarrow> npfloat \<Rightarrow> npfloat" where
  "times_npfloat (Fin a) (Fin b) = Fin (a * b)"
| "times_npfloat NaN _ = NaN"
| "times_npfloat _ NaN = NaN"
| "times_npfloat (Fin a) PInf = (if a = 0 then NaN else if 0 < a then PInf else NInf)"
| "times_npfloat (Fin a) NInf = (if a = 0 then NaN else if 0 < a then NInf else PInf)"
| "times_npfloat PInf (Fin b) = (if b = 0 then NaN else if 0 < b then PInf else NInf)"
| "times_npfloat NInf (Fin b) = (if b = 0 then NaN else if 0 < b then NInf else PInf)"
| "times_npfloat PInf PInf = PInf"
| "times_npfloat NInf NInf = PInf"
| "times_npfloat PInf NInf = NInf"
| "times_npfloat NInf PInf = NInf"

fun divide_npfloat :: "npfloat \<Rightarrow> npfloat \<Rightarrow> npfloat" where
  "divide_npfloat (Fin a) (Fin b) =
     (if b \<noteq> 0 then Fin (a / b)
      else if a = 0 then NaN else if 0 < a then PInf else NInf)"
| "divide_npfloat NaN _ = NaN"
| "divide_npfloat _ NaN = NaN"
| "divide_npfloat (Fin a) PInf = Fin 0"
| "divide_npfloat (Fin a) NInf = Fin 0"
| "divide_npfloat PInf (Fin b) = (if 0 \<le> b then PInf else NInf)"
| "divide_npfloat NInf (Fin b) = (if 0 \<le> b then NInf else PInf)"
| "divide_npfloat PInf PInf = NaN"
| "divide_npfloat PInf NInf = NaN"
| "divide_npfloat NInf PInf = NaN"
| "divide_npfloat NInf NInf = NaN"

instance ..

end

instantiation npfloat :: inverse
begin

definition inverse_npfloat :: "npfloat \<Rightarrow> npfloat" where
  "inverse_npfloat x = Fin 1 div x"

instance ..

end

instance npfloat :: comm_monoid_add
proof
  fix u v w :: npfloat
  show "u + v = v + u"
    by (cases u; cases v; simp)
  show "0 + u = u"
    unfolding zero_npfloat_def by (cases u; simp)
  show "u + v + w = u + (v + w)"
    by (cases u; cases v; cases w; simp)
qed

fun is_fin :: "npfloat \<Rightarrow> bool" where
  "is_fin (Fin a) = True"
| "is_fin _ = False"

text \<open>The comparison \<^verbatim>\<open><=\<close> of floats: every comparison with \<open>NaN\<close> is false.\<close>

fun fle :: "npfloat \<Rightarrow> npfloat \<Rightarrow> bool" where
  "fle (Fin a) (Fin b) = (a \<le> b)"
| "fle NaN _ = False"
| "fle _ NaN = False"
| "fle NInf _ = True"
| "fle _ PInf = True"
| "fle PInf _ = False"
| "fle _ NInf = False"

text \<open>A sequence is non-decreasing when each element is \<^verbatim>\<open><=\<close> its successor.\<close>

definition nondecreasing :: "npfloat list \<Rightarrow> bool" where
  "nondecreasing xs = successively fle xs"


section \<open>Exceptions and strings\<close>

text \<open>
  The exceptions that the modelled code raises itself or lets through from the
  library: \<open>ValueError\<close> (also numpy's for a negative dimension or an unparsable number),
  \<open>IOError\<close> (also \<^verbatim>\<open>open\<close> on a missing file), \<open>IndexError\<close>, \<open>KeyError\<close>,
  \<open>AttributeError\<close>, and \<open>UnpicklingError\<close> for what \<^verbatim>\<open>pickle.load\<close> may raise.
\<close>

datatype error =
  ValueError | IOError | IndexError | KeyError | AttributeError | UnpicklingError

abbreviation TAB :: char where
  "TAB \<equiv> CHR 0x09"

abbreviation NL :: char where
  "NL \<equiv> CHR 0x0A"

text \<open>\<^verbatim>\<open>s.find(sub)\<close>: the lowest index at which \<open>sub\<close> occurs in \<open>s\<close>, or \<open>-1\<close>.\<close>

fun str_find :: "string \<Rightarrow> string \<Rightarrow> int" where
  "str_find [] sub = (if sub = [] then 0 else - 1)"
| "str_find (c # s) sub =
     (if take (length sub) (c # s) = sub then 0
      else (let r = str_find s sub in if r < 0 then - 1 else r + 1))"

text \<open>\<^verbatim>\<open>s.split(d)\<close> for a one-character separator: never the empty list.\<close>

fun str_split :: "char \<Rightarrow> string \<Rightarrow> string list" where
  "str_split d [] = [[]]"
| "str_split d (c # s) =
     (if c = d then [] # str_split d s
      else (case str_split d s of
              [] \<Rightarrow> [[c]]
            | f # fs \<Rightarrow> (c # f) # fs))"

text \<open>The lines of a text file as iteration over the file yields them: each line keeps
  its newline; a last line without a newline is a line as well.\<close>

fun readlines :: "string \<Rightarrow> string list" where
  "readlines [] = []"
| "readlines (c # s) =
     (if c = NL then [c] # readlines s
      else (case readlines s of
              [] \<Rightarrow> [[c]]
            | l # ls \<Rightarrow> (c # l) # ls))"

text \<open>Indexing a sequence with a Python integer: a negative index counts from the end.\<close>

definition index1 :: "'a list \<Rightarrow> int \<Rightarrow> error + 'a" where
  "index1 xs i =
     (let n = int (length xs); i' = (if i < 0 then n + i else i)
      in if 0 \<le> i' \<and> i' < n then Inr (xs ! nat i') else Inl IndexError)"

text \<open>
  A two-dimensional array is the list of its rows (all of one length). \<open>index2 y i j\<close> is
  \<^verbatim>\<open>y[i, j]\<close> for an integer row index and a column index taken from a species index
  (never negative); \<open>column m j\<close> is the slice \<^verbatim>\<open>m[:, j]\<close>.
\<close>

definition index2 :: "'a list list \<Rightarrow> int \<Rightarrow> nat \<Rightarrow> error + 'a" where
  "index2 y i j =
     (case index1 y i of
        Inl e \<Rightarrow> Inl e
      | Inr row \<Rightarrow> if j < length row then Inr (row ! j) else Inl IndexError)"



section \<open>The result loader\<close>

text \<open>
  What \<^verbatim>\<open>load_results\<close> asks of its environment: \<^verbatim>\<open>os.path.exists\<close>,
  \<^verbatim>\<open>os.path.isfile\<close>, the content of a file that \<^verbatim>\<open>open\<close> can read (\<open>None\<close>: \<^verbatim>\<open>open\<close>
  raises \<open>IOError\<close>), \<^verbatim>\<open>pickle.load\<close> on a file's content (a sequence of values of some
  type \<open>'p\<close>, or an exception), the conversion of a string to a float that numpy does
  when a string is stored into a float64 array (\<open>None\<close>: \<open>ValueError\<close>), and the order in
  which a dictionary with the given keys enumerates them (Python 2 dictionaries
  enumerate in hash order; \<^verbatim>\<open>keys()\<close> and \<^verbatim>\<open>values()\<close> agree on it).
\<close>

record 'p env =
  path_exists :: "string \<Rightarrow> bool"
  path_isfile :: "string \<Rightarrow> bool"
  file_content :: "string \<Rightarrow> string option"
  pickle_load :: "string \<Rightarrow> error + 'p list"
  to_float :: "string \<Rightarrow> npfloat option"
  dict_keys :: "string list \<Rightarrow> string list"

text \<open>The order of a dictionary's keys is an enumeration of its keys without repetition.\<close>

definition dict_keys_ok :: "'p env \<Rightarrow> string list \<Rightarrow> bool" where
  "dict_keys_ok env ks = (set (dict_keys env ks) = set ks \<and> distinct (dict_keys env ks))"

subsection \<open>\<^verbatim>\<open>read_results_files\<close>\<close>

text \<open>
  The loop \<^verbatim>\<open>for j, concentration in enumerate(line.split('\t')[1:-2]): y[i-1, j] =
  concentration\<close> on one row of the zero matrix: an index beyond the row raises
  \<open>IndexError\<close>, an unparsable field \<open>ValueError\<close>.
\<close>

fun set_concentrations ::
  "'p env \<Rightarrow> nat \<Rightarrow> string list \<Rightarrow> npfloat list \<Rightarrow> error + npfloat list" where
  "set_concentrations env j [] row = Inr row"
| "set_concentrations env j (concentration # cs) row =
     (if length row \<le> j then Inl IndexError
      else (case to_float env concentration of
              None \<Rightarrow> Inl ValueError
            | Some v \<Rightarrow> set_concentrations env (Suc j) cs (row[j := v])))"

text \<open>The slice \<^verbatim>\<open>fields[1:-2]\<close>.\<close>

definition slice_1_m2 :: "'a list \<Rightarrow> 'a list" where
  "slice_1_m2 flds = drop 1 (take (length flds - 2) flds)"

text \<open>
  One data line: the time is the second space-separated token of the first tab field,
  the temperature is \<^verbatim>\<open>line.split('\t')[-2]\<close>, the concentrations are
  \<^verbatim>\<open>line.split('\t')[1:-2]\<close>. The result is (time, concentration row, temperature).
\<close>

definition parse_line ::
  "'p env \<Rightarrow> nat \<Rightarrow> string \<Rightarrow> error + (npfloat \<times> npfloat list \<times> npfloat)" where
  "parse_line env ncols line =
     (let flds = str_split TAB line;
          tokens = str_split (CHR '' '') (flds ! 0)
      in if length tokens < 2 then Inl IndexError
         else (case to_float env (tokens ! 1) of
                 None \<Rightarrow> Inl ValueError
               | Some tv \<Rightarrow>
                   if length flds < 2 then Inl IndexError
                   else (case to_float env (flds ! (length flds - 2)) of
                           None \<Rightarrow> Inl ValueError
                         | Some Tv \<Rightarrow>
                            (case set_concentrations env 0 (slice_1_m2 flds)
                                    (replicate ncols 0) of
                               Inl e \<Rightarrow> Inl e
                             | Inr row \<Rightarrow> Inr (tv, row, Tv)))))"

text \<open>The data lines in order; the first exception ends the loop.\<close>

fun parse_lines ::
  "'p env \<Rightarrow> nat \<Rightarrow> string list \<Rightarrow>
   error + (npfloat list \<times> npfloat list list \<times> npfloat list)" where
  "parse_lines env ncols [] = Inr ([], [], [])"
| "parse_lines env ncols (line # ls) =
     (case parse_line env ncols line of
        Inl e \<Rightarrow> Inl e
      | Inr (tv, row, Tv) \<Rightarrow>
          (case parse_lines env ncols ls of
             Inl e \<Rightarrow> Inl e
           | Inr (t, y, T) \<Rightarrow> Inr (tv # t, row # y, Tv # T)))"

text \<open>
  \<^verbatim>\<open>read_results_files(filename, specieslist_ddasac)\<close> returns \<open>(t, y, T)\<close>. The
  \<open>(n, 1)\<close> arrays \<open>t\<close> and \<open>T\<close> are lists of \<open>n\<close> numbers. \<^verbatim>\<open>num_lines\<close> is the number of
  lines minus 7; \<^verbatim>\<open>np.zeros\<close> raises \<open>ValueError\<close> when it is negative. The data lines
  are those with \<^verbatim>\<open>1 <= i < num_lines + 1\<close>.
\<close>

definition read_results_files ::
  "'p env \<Rightarrow> string \<Rightarrow> string list \<Rightarrow>
   error + (npfloat list \<times> npfloat list list \<times> npfloat list)" where
  "read_results_files env filename specieslist_ddasac =
     (case file_content env filename of
        None \<Rightarrow> Inl IOError
      | Some result \<Rightarrow>
          (let lines = readlines result;
               num_lines = int (length lines) - 7
           in if num_lines < 0 then Inl ValueError
              else parse_lines env (length specieslist_ddasac)
                     (take (nat num_lines) (drop 1 lines))))"

subsection \<open>\<^verbatim>\<open>load_results\<close>\<close>

text \<open>
  The species of the model file: the text after the first \<^verbatim>\<open>enum {\<close> (1000
  characters of it; \<^verbatim>\<open>find\<close> returns \<open>-1\<close> when the marker is absent, and the text then
  starts at offset 5) up to the first closing brace, the empty string when no brace is
  there; newlines and spaces are removed and the rest is split at the commas.
\<close>

definition parse_species :: "string \<Rightarrow> string list" where
  "parse_species body =
     (let spos = str_find body ''enum {'';
          listiwant = take 1000 (drop (nat (spos + 6)) body);
          species_ddasac =
            (if CHR ''}'' \<in> set listiwant
             then takeWhile (\<lambda>c. c \<noteq> CHR ''}'') listiwant else []);
          species_ddasac = filter (\<lambda>c. c \<noteq> NL \<and> c \<noteq> CHR '' '') species_ddasac
      in str_split (CHR '','') species_ddasac)"

text \<open>
  \<^verbatim>\<open>for i, species in enumerate(specieslist_ddasac): speciesindices_ddasac[species] = i\<close>
\<close>

definition build_speciesindices :: "string list \<Rightarrow> (string \<rightharpoonup> nat)" where
  "build_speciesindices sl =
     fold (\<lambda>(i, species) d. d(species \<mapsto> i)) (enumerate 0 sl) Map.empty"

text \<open>
  \<^verbatim>\<open>dict(zip(d.values(), d.keys()))\<close>, where \<open>ks\<close> is the order in which \<open>d\<close> enumerates
  its keys: a later pair replaces an earlier one with the same value.
\<close>

definition zip_values_keys :: "(string \<rightharpoonup> nat) \<Rightarrow> string list \<Rightarrow> (nat \<rightharpoonup> string)" where
  "zip_values_keys d ks =
     fold (\<lambda>k r. case d k of None \<Rightarrow> r | Some v \<Rightarrow> r(v \<mapsto> k)) ks Map.empty"

text \<open>
  A segment is \<open>(t, y, T)\<close>. Appending a later segment:
  \<^verbatim>\<open>y = np.concatenate((y, y2[1:])); t = np.concatenate((t, t[-1]+t2[1:]));
  T = np.concatenate((T, T2[1:]))\<close>; \<^verbatim>\<open>t[-1]\<close> on an empty \<open>t\<close> raises \<open>IndexError\<close>.
\<close>

type_synonym segment = "npfloat list \<times> npfloat list list \<times> npfloat list"

fun append_segment :: "segment \<Rightarrow> segment \<Rightarrow> error + segment" where
  "append_segment (t, y, T) (t2, y2, T2) =
     (if t = [] then Inl IndexError
      else Inr (t @ map (\<lambda>x. last t + x) (drop 1 t2), y @ drop 1 y2, T @ drop 1 T2))"

text \<open>
  One \<^verbatim>\<open>try: ... except IOError: print ...\<close> block: an \<open>IOError\<close> (the file cannot be
  opened) leaves the arrays as they are and prints the notice; any other exception
  leaves the function.
\<close>

definition add_segment ::
  "'p env \<Rightarrow> string \<Rightarrow> string list \<Rightarrow> string \<Rightarrow> string list \<times> segment \<Rightarrow>
   string list \<times> (error + segment)" where
  "add_segment env file specieslist_ddasac notice st =
     (case read_results_files env file specieslist_ddasac of
        Inl IOError \<Rightarrow> (fst st @ [notice], Inr (snd st))
      | Inl e \<Rightarrow> (fst st, Inl e)
      | Inr seg \<Rightarrow> (fst st, append_segment (snd st) seg))"

text \<open>Lines 116 to 136: the first results file, then the two optional ones.\<close>

definition load_segments ::
  "'p env \<Rightarrow> string \<Rightarrow> string list \<Rightarrow> string list \<times> (error + segment)" where
  "load_segments env rpath specieslist_ddasac =
     (case read_results_files env (rpath @ ''/ddasac_results_1.out'') specieslist_ddasac of
        Inl e \<Rightarrow> ([], Inl e)
      | Inr seg1 \<Rightarrow>
          (case add_segment env (rpath @ ''/ddasac_results_2.out'') specieslist_ddasac
                  ''There is not a second DDASAC results file (isothermal hold)''
                  ([], seg1) of
             (out, Inl e) \<Rightarrow> (out, Inl e)
           | (out, Inr seg12) \<Rightarrow>
               add_segment env (rpath @ ''/ddasac_results_3.out'') specieslist_ddasac
                 ''There is not a third DDASAC results file (cool down period)''
                 (out, seg12)))"

text \<open>What \<^verbatim>\<open>load_results\<close> returns.\<close>

record 'p results =
  end_time :: 'p
  output_time_step :: 'p
  initial_T :: 'p
  heating_rate :: 'p
  max_T :: 'p
  atol :: 'p
  rtol :: 'p
  plant :: 'p
  cool_time :: 'p
  y_res :: "npfloat list list"
  t_res :: "npfloat list"
  T_res :: "npfloat list"
  specieslist_ddasac :: "string list"
  speciesindices_ddasac :: "string \<rightharpoonup> nat"
  indices_to_species_ddasac :: "nat \<rightharpoonup> string"

text \<open>
  Lines 70 to 81: the parameter file is opened (\<open>IOError\<close>) and unpickled, and
  \<^verbatim>\<open>prog_params[0]\<close> to \<^verbatim>\<open>prog_params[8]\<close> are read (\<open>IndexError\<close> on a shorter
  sequence).
\<close>

definition load_params :: "'p env \<Rightarrow> string \<Rightarrow> error + 'p list" where
  "load_params env rpath =
     (case file_content env (rpath @ ''/prog_params.pkl'') of
        None \<Rightarrow> Inl IOError
      | Some params \<Rightarrow>
          (case pickle_load env params of
             Inl e \<Rightarrow> Inl e
           | Inr prog_params \<Rightarrow>
               if length prog_params < 9 then Inl IndexError else Inr prog_params))"

text \<open>Lines 87 to 104: the model file is opened (\<open>IOError\<close>) and its species are read.\<close>

definition read_model :: "'p env \<Rightarrow> string \<Rightarrow> error + string list" where
  "read_model env path =
     (case file_content env (path @ ''/model.c'') of
        None \<Rightarrow> Inl IOError
      | Some body \<Rightarrow> Inr (parse_species body))"

text \<open>The returned list, from the parameters, the dictionaries and the arrays.\<close>

definition make_results ::
  "'p list \<Rightarrow> segment \<Rightarrow> string list \<Rightarrow> (string \<rightharpoonup> nat) \<Rightarrow> (nat \<rightharpoonup> string) \<Rightarrow> 'p results" where
  "make_results prog_params seg sorted_list indices names =
     \<lparr>end_time = prog_params ! 0,
      output_time_step = prog_params ! 1,
      initial_T = prog_params ! 2,
      heating_rate = prog_params ! 3,
      max_T = prog_params ! 4,
      atol = prog_params ! 5,
      rtol = prog_params ! 6,
      plant = prog_params ! 7,
      cool_time = prog_params ! 8,
      y_res = fst (snd seg), t_res = fst seg, T_res = snd (snd seg),
      specieslist_ddasac = sorted_list,
      speciesindices_ddasac = indices,
      indices_to_species_ddasac = names\<rparr>"

text \<open>
  \<^verbatim>\<open>load_results(path)\<close>: what it prints, and the exception it raises or the
  value it returns. The two dictionaries are built from the species in the order of the
  model file; the list is sorted afterwards.
\<close>

definition load_results :: "'p env \<Rightarrow> string \<Rightarrow> string list \<times> (error + 'p results)" where
  "load_results env path =
     (let rpath = path @ ''/results_dir''
      in if \<not> path_exists env rpath then ([], Inl ValueError)
         else (case load_params env rpath of
            Inl e \<Rightarrow> ([], Inl e)
          | Inr prog_params \<Rightarrow>
              if \<not> path_isfile env (rpath @ ''/ddasac_results_1.out'')
              then ([], Inl IOError)
              else (case read_model env path of
                 Inl e \<Rightarrow> ([], Inl e)
               | Inr model_order \<Rightarrow>
                  (let indices = build_speciesindices model_order;
                       names = zip_values_keys indices (dict_keys env model_order);
                       sorted_list = sort model_order
                   in (case snd (load_segments env rpath sorted_list) of
                         Inl e \<Rightarrow> (fst (load_segments env rpath sorted_list), Inl e)
                       | Inr seg \<Rightarrow>
                           (fst (load_segments env rpath sorted_list),
                            Inr (make_results prog_params seg sorted_list indices names)))))))"


section \<open>The species table\<close>

text \<open>
  \<^verbatim>\<open>MW\<close> is imported from \<^verbatim>\<open>constants.py\<close>, which is not part of the sources at hand; the
  functions below take it as a parameter. It is a dictionary from a species name to
  \<^verbatim>\<open>[placeholder, phase tag, subfamily tag, [C, H, O], [seven functional groups]]\<close>.
  The table is the list of its items in the order in which \<^verbatim>\<open>for species in MW\<close>
  enumerates the keys; \<^verbatim>\<open>MW[species]\<close> for the species of an iteration is the entry
  enumerated with it.
\<close>

datatype vec3 = Vec3 npfloat npfloat npfloat

datatype vec7 = Vec7 npfloat npfloat npfloat npfloat npfloat npfloat npfloat

record mw_entry =
  placeholder :: npfloat
  phase :: string
  family :: "string option"
  elements :: vec3
  groups :: vec7

type_synonym mw_table = "(string \<times> mw_entry) list"

text \<open>\<^verbatim>\<open>v[k] += c * w[k]\<close> for every component \<open>k\<close>.\<close>

fun axpy3 :: "vec3 \<Rightarrow> npfloat \<Rightarrow> vec3 \<Rightarrow> vec3" where
  "axpy3 (Vec3 v0 v1 v2) c (Vec3 w0 w1 w2) = Vec3 (v0 + c * w0) (v1 + c * w1) (v2 + c * w2)"

fun axpy7 :: "vec7 \<Rightarrow> npfloat \<Rightarrow> vec7 \<Rightarrow> vec7" where
  "axpy7 (Vec7 v0 v1 v2 v3 v4 v5 v6) c (Vec7 w0 w1 w2 w3 w4 w5 w6) =
     Vec7 (v0 + c * w0) (v1 + c * w1) (v2 + c * w2) (v3 + c * w3)
          (v4 + c * w4) (v5 + c * w5) (v6 + c * w6)"

text \<open>\<^verbatim>\<open>v.sum()\<close>, \<^verbatim>\<open>v / s\<close> for a scalar \<open>s\<close>, and the product \<^verbatim>\<open>v * w\<close> by components.\<close>

fun sum3 :: "vec3 \<Rightarrow> npfloat" where
  "sum3 (Vec3 v0 v1 v2) = v0 + v1 + v2"

fun sum7 :: "vec7 \<Rightarrow> npfloat" where
  "sum7 (Vec7 v0 v1 v2 v3 v4 v5 v6) = v0 + v1 + v2 + v3 + v4 + v5 + v6"

fun div3 :: "vec3 \<Rightarrow> npfloat \<Rightarrow> vec3" where
  "div3 (Vec3 v0 v1 v2) s = Vec3 (v0 / s) (v1 / s) (v2 / s)"

fun div7 :: "vec7 \<Rightarrow> npfloat \<Rightarrow> vec7" where
  "div7 (Vec7 v0 v1 v2 v3 v4 v5 v6) s =
     Vec7 (v0 / s) (v1 / s) (v2 / s) (v3 / s) (v4 / s) (v5 / s) (v6 / s)"

fun mul3 :: "vec3 \<Rightarrow> vec3 \<Rightarrow> vec3" where
  "mul3 (Vec3 v0 v1 v2) (Vec3 w0 w1 w2) = Vec3 (v0 * w0) (v1 * w1) (v2 * w2)"

definition zeros3 :: vec3 where
  "zeros3 = Vec3 0 0 0"

definition zeros7 :: vec7 where
  "zeros7 = Vec7 0 0 0 0 0 0 0"

text \<open>The atomic weights \<^verbatim>\<open>[12.011, 1.0079, 15.999]\<close>.\<close>

definition atomic_weights :: vec3 where
  "atomic_weights = Vec3 (Fin 12.011) (Fin 1.0079) (Fin 15.999)"


section \<open>\<^verbatim>\<open>tar_elem_analysis\<close>\<close>

text \<open>
  The first loop: every species of the table is looked up in \<open>speciesindices\<close>
  (\<open>KeyError\<close>) and in row 0 of \<open>y\<close> (\<open>IndexError\<close>); it contributes when its initial
  concentration is not zero.
\<close>

fun ea0_loop ::
  "mw_table \<Rightarrow> (string \<rightharpoonup> nat) \<Rightarrow> npfloat list list \<Rightarrow> vec3 \<Rightarrow> error + vec3" where
  "ea0_loop [] speciesindices y ea0 = Inr ea0"
| "ea0_loop ((species, props) # MW) speciesindices y ea0 =
     (case speciesindices species of
        None \<Rightarrow> Inl KeyError
      | Some j \<Rightarrow>
          (case index2 y 0 j of
             Inl e \<Rightarrow> Inl e
           | Inr c \<Rightarrow>
               ea0_loop MW speciesindices y
                 (if c \<noteq> 0 then axpy3 ea0 c (elements props) else ea0)))"

text \<open>The second loop: only a species tagged \<^verbatim>\<open>'t'\<close>, \<^verbatim>\<open>'lt'\<close> or \<^verbatim>\<open>'H2O'\<close> is looked up.\<close>

definition tar_tags :: "string list" where
  "tar_tags = [''t'', ''lt'', ''H2O'']"

fun ea_loop ::
  "mw_table \<Rightarrow> (string \<rightharpoonup> nat) \<Rightarrow> npfloat list list \<Rightarrow> int \<Rightarrow> vec3 \<Rightarrow> error + vec3" where
  "ea_loop [] speciesindices y t_index ea = Inr ea"
| "ea_loop ((species, props) # MW) speciesindices y t_index ea =
     (if phase props \<in> set tar_tags then
        (case speciesindices species of
           None \<Rightarrow> Inl KeyError
         | Some j \<Rightarrow>
             (case index2 y t_index j of
                Inl e \<Rightarrow> Inl e
              | Inr c \<Rightarrow> ea_loop MW speciesindices y t_index (axpy3 ea c (elements props))))
      else ea_loop MW speciesindices y t_index ea)"

text \<open>
  \<^verbatim>\<open>t_choice\<close> is the string \<^verbatim>\<open>'end'\<close> or an index of \<open>t\<close>; \<^verbatim>\<open>choice\<close> is one of two
  messages, the second one holding \<^verbatim>\<open>t[t_index]\<close>.
\<close>

datatype t_choice = T_end | T_index int

datatype choice_msg = Done_at_end | Done_at_time npfloat

record tar_analysis =
  ea0 :: vec3
  ea :: vec3
  ea0_molpercent :: vec3
  ea_molpercent :: vec3
  ea0_wtpercent :: vec3
  ea_wtpercent :: vec3
  choice :: choice_msg
  t_index :: int

definition choose_time :: "npfloat list \<Rightarrow> t_choice \<Rightarrow> error + (int \<times> choice_msg)" where
  "choose_time t tc =
     (case tc of
        T_end \<Rightarrow> Inr (int (length t) - 1, Done_at_end)
      | T_index i \<Rightarrow>
          (case index1 t i of
             Inl e \<Rightarrow> Inl e
           | Inr tv \<Rightarrow> Inr (i, Done_at_time tv)))"

definition tar_elem_analysis ::
  "mw_table \<Rightarrow> (string \<rightharpoonup> nat) \<Rightarrow> npfloat list list \<Rightarrow> npfloat list \<Rightarrow> t_choice \<Rightarrow>
   error + tar_analysis" where
  "tar_elem_analysis MW speciesindices y t tc =
     (case ea0_loop MW speciesindices y zeros3 of
        Inl e \<Rightarrow> Inl e
      | Inr e0 \<Rightarrow>
          (case choose_time t tc of
             Inl e \<Rightarrow> Inl e
           | Inr (ti, msg) \<Rightarrow>
               (case ea_loop MW speciesindices y ti zeros3 of
                  Inl e \<Rightarrow> Inl e
                | Inr e1 \<Rightarrow>
                    (let ea_g = mul3 e1 atomic_weights;
                         ea0_g = mul3 e0 atomic_weights
                     in Inr \<lparr>ea0 = e0, ea = e1,
                             ea0_molpercent = div3 e0 (sum3 e0),
                             ea_molpercent = div3 e1 (sum3 e1),
                             ea0_wtpercent = div3 ea0_g (sum3 ea0_g),
                             ea_wtpercent = div3 ea_g (sum3 ea_g),
                             choice = msg, t_index = ti\<rparr>))))"


section \<open>\<^verbatim>\<open>C_fun_gen\<close>\<close>

text \<open>
  The loop over the table with the variables it assigns, \<^verbatim>\<open>time\<close> and \<^verbatim>\<open>C_fun\<close>:
  when \<^verbatim>\<open>fractions == ['initial']\<close> each iteration sets \<^verbatim>\<open>time = 0\<close> and adds the
  species when its concentration in that row is not zero; otherwise a species is added
  when its phase tag is in \<open>fractions\<close>.
\<close>

fun C_fun_loop ::
  "mw_table \<Rightarrow> string list \<Rightarrow> (string \<rightharpoonup> nat) \<Rightarrow> npfloat list list \<Rightarrow> int \<Rightarrow> vec7 \<Rightarrow>
   error + vec7" where
  "C_fun_loop [] fractions speciesindices y time C_fun = Inr C_fun"
| "C_fun_loop ((species, props) # MW) fractions speciesindices y time C_fun =
     (if fractions = [''initial''] then
        (let time = 0
         in (case speciesindices species of
               None \<Rightarrow> Inl KeyError
             | Some j \<Rightarrow>
                 (case index2 y time j of
                    Inl e \<Rightarrow> Inl e
                  | Inr c \<Rightarrow>
                      C_fun_loop MW fractions speciesindices y time
                        (if c \<noteq> 0 then axpy7 C_fun c (groups props) else C_fun))))
      else if phase props \<in> set fractions then
        (case speciesindices species of
           None \<Rightarrow> Inl KeyError
         | Some j \<Rightarrow>
             (case index2 y time j of
                Inl e \<Rightarrow> Inl e
              | Inr c \<Rightarrow>
                  C_fun_loop MW fractions speciesindices y time
                    (axpy7 C_fun c (groups props))))
      else C_fun_loop MW fractions speciesindices y time C_fun)"

definition C_fun_gen ::
  "mw_table \<Rightarrow> string list \<Rightarrow> (string \<rightharpoonup> nat) \<Rightarrow> npfloat list list \<Rightarrow> int \<Rightarrow>
   error + vec7" where
  "C_fun_gen MW fractions speciesindices y time =
     (case C_fun_loop MW fractions speciesindices y time zeros7 of
        Inl e \<Rightarrow> Inl e
      | Inr C_fun \<Rightarrow> Inr (div7 C_fun (sum7 C_fun)))"


section \<open>\<^verbatim>\<open>lump_species\<close>\<close>








section \<open>\<^verbatim>\<open>generate_report\<close>\<close>

text \<open>
  The accumulation of \<^verbatim>\<open>mtot\<close> (lines 451 to 455). \<^verbatim>\<open>mtot\<close> starts as the list \<^verbatim>\<open>[0]\<close>;
  \<^verbatim>\<open>mtot += x\<close> with a float64 \<open>x\<close> makes it the one-element array \<^verbatim>\<open>[0 + x]\<close>, and every
  later \<^verbatim>\<open>+=\<close> adds to that element. The model keeps the one element.
\<close>

fun mtot_loop ::
  "mw_table \<Rightarrow> (string \<rightharpoonup> nat) \<Rightarrow> npfloat list list \<Rightarrow> int \<Rightarrow> npfloat \<Rightarrow> error + npfloat" where
  "mtot_loop [] speciesindices m ti mtot = Inr mtot"
| "mtot_loop ((species, props) # MW) speciesindices m ti mtot =
     (if phase props \<in> set tar_tags then
        (case speciesindices species of
           None \<Rightarrow> Inl KeyError
         | Some j \<Rightarrow>
             (case index2 m ti j of
                Inl e \<Rightarrow> Inl e
              | Inr x \<Rightarrow> mtot_loop MW speciesindices m ti (mtot + x)))
      else mtot_loop MW speciesindices m ti mtot)"

text \<open>
  \<^verbatim>\<open>mc = m[t_index, speciesindices['H2O']] / mtot\<close>; the report prints \<^verbatim>\<open>mc[0]\<close>.
\<close>

definition moisture_content ::
  "mw_table \<Rightarrow> (string \<rightharpoonup> nat) \<Rightarrow> npfloat list list \<Rightarrow> int \<Rightarrow> error + npfloat" where
  "moisture_content MW speciesindices m ti =
     (case mtot_loop MW speciesindices m ti 0 of
        Inl e \<Rightarrow> Inl e
      | Inr mtot \<Rightarrow>
          (case speciesindices ''H2O'' of
             None \<Rightarrow> Inl KeyError
           | Some j \<Rightarrow>
               (case index2 m ti j of
                  Inl e \<Rightarrow> Inl e
                | Inr w \<Rightarrow> Inr (w / mtot))))"

text \<open>
  The numbers that the first \<^verbatim>\<open>print\<close> statement of \<^verbatim>\<open>generate_report\<close> (line 472) and
  the table after it format, computed in the order of lines 419 to 466: the elemental
  analysis at the default time \<^verbatim>\<open>'end'\<close>, the ratio \<^verbatim>\<open>ea[1] / ea[0]\<close>, the moisture
  content, and the four functional group distributions. The header formats
  \<^verbatim>\<open>which_result.value\<close>: the argument \<open>which_result\<close> of the model is that attribute,
  \<open>None\<close> when the object passed has no attribute \<^verbatim>\<open>value\<close> (\<open>AttributeError\<close>; a plain
  string has none). The formatting of the numbers and the sections printed later, the
  only ones that use \<^verbatim>\<open>specieslist\<close>, are not modelled.
\<close>

record report =
  folder :: string
  analysis :: tar_analysis
  hc_ratio :: npfloat
  mc :: npfloat
  Cfun0 :: vec7
  Cfun :: vec7
  Cfunheavy :: vec7
  Cfunlight :: vec7

fun hc_of :: "vec3 \<Rightarrow> npfloat" where
  "hc_of (Vec3 vc vh vo) = vh / vc"

definition generate_report ::
  "mw_table \<Rightarrow> (string \<rightharpoonup> nat) \<Rightarrow> npfloat list list \<Rightarrow> npfloat list list \<Rightarrow> npfloat list \<Rightarrow>
   string option \<Rightarrow> error + report" where
  "generate_report MW speciesindices y m t which_result =
     (case tar_elem_analysis MW speciesindices y t T_end of
        Inl e \<Rightarrow> Inl e
      | Inr a \<Rightarrow>
     (case which_result of
        None \<Rightarrow> Inl AttributeError
      | Some name \<Rightarrow>
     (case moisture_content MW speciesindices m (t_index a) of
        Inl e \<Rightarrow> Inl e
      | Inr mc0 \<Rightarrow>
     (case C_fun_gen MW [''initial''] speciesindices y 0 of
        Inl e \<Rightarrow> Inl e
      | Inr c0 \<Rightarrow>
     (case C_fun_gen MW [''t'', ''lt''] speciesindices y (t_index a) of
        Inl e \<Rightarrow> Inl e
      | Inr c1 \<Rightarrow>
     (case C_fun_gen MW [''t''] speciesindices y (t_index a) of
        Inl e \<Rightarrow> Inl e
      | Inr c2 \<Rightarrow>
     (case C_fun_gen MW [''lt''] speciesindices y (t_index a) of
        Inl e \<Rightarrow> Inl e
      | Inr c3 \<Rightarrow>
          Inr \<lparr>folder = name, analysis = a, hc_ratio = hc_of (ea a), mc = mc0,
               Cfun0 = c0, Cfun = c1, Cfunheavy = c2, Cfunlight = c3\<rparr>)))))))"


section \<open>Notions used to state the properties\<close>


definition nan3 :: vec3 where
  "nan3 = Vec3 NaN NaN NaN"

definition nan7 :: vec7 where
  "nan7 = Vec7 NaN NaN NaN NaN NaN NaN NaN"


definition tar_columns :: "mw_table \<Rightarrow> (string \<rightharpoonup> nat) \<Rightarrow> nat list" where
  "tar_columns MW speciesindices =
     List.map_filter
       (\<lambda>sp. if phase (snd sp) \<in> set tar_tags then speciesindices (fst sp) else None) MW"


section \<open>Example inputs\<close>

text \<open>
  Concrete inputs on which the functions above are evaluated. \<open>digits_float\<close> is an
  instance of the conversion of a string to a float: surrounding white space is ignored
  and a non-empty string of decimal digits is its value.
\<close>

definition strip :: "string \<Rightarrow> string" where
  "strip s =
     (let ws = (\<lambda>c. c = CHR '' '' \<or> c = TAB \<or> c = NL)
      in rev (dropWhile ws (rev (dropWhile ws s))))"

definition is_digit :: "char \<Rightarrow> bool" where
  "is_digit c = (CHR ''0'' \<le> c \<and> c \<le> CHR ''9'')"

definition nat_of_digits :: "string \<Rightarrow> nat" where
  "nat_of_digits s = foldl (\<lambda>n c. 10 * n + (of_char c - 48)) 0 s"

definition digits_float :: "string \<Rightarrow> npfloat option" where
  "digits_float s =
     (let d = strip s
      in if d \<noteq> [] \<and> list_all is_digit d then Some (Fin (real (nat_of_digits d)))
         else None)"

text \<open>A data line: a label and the time, then the given fields, each after a tab.\<close>

definition example_line :: "string \<Rightarrow> string list \<Rightarrow> string" where
  "example_line tm fs = ''a '' @ tm @ concat (map (\<lambda>f. TAB # f) fs) @ [NL]"

definition example_footer :: string where
  "example_footer = concat (replicate 6 (''x'' @ [NL]))"

text \<open>Two segment files: a header line, the data lines, six footer lines.\<close>

definition example_file1 :: string where
  "example_file1 =
     ''header'' @ [NL]
     @ example_line ''0'' [''1'', ''2'', ''300'', ''9'']
     @ example_line ''5'' [''3'', ''4'', ''310'', ''9'']
     @ example_footer"

definition example_file2 :: string where
  "example_file2 =
     ''header'' @ [NL]
     @ example_line ''0'' [''3'', ''4'', ''310'', ''9'']
     @ example_line ''2'' [''5'', ''6'', ''310'', ''9'']
     @ example_line ''4'' [''7'', ''8'', ''310'', ''9'']
     @ example_footer"

text \<open>
  A directory \<^verbatim>\<open>run\<close> with a parameter file, a model file that declares the species
  \<^verbatim>\<open>B, A\<close> in this order, and the first two segment files.
\<close>

definition example_model :: string where
  "example_model = ''enum {B,'' @ [NL] @ '' A};''"

definition example_env :: "nat env" where
  "example_env =
     \<lparr>path_exists = (\<lambda>p. p = ''run/results_dir''),
      path_isfile = (\<lambda>p. p = ''run/results_dir/ddasac_results_1.out''),
      file_content =
        (\<lambda>p. if p = ''run/results_dir/prog_params.pkl'' then Some ''params''
             else if p = ''run/model.c'' then Some example_model
             else if p = ''run/results_dir/ddasac_results_1.out'' then Some example_file1
             else if p = ''run/results_dir/ddasac_results_2.out'' then Some example_file2
             else None),
      pickle_load = (\<lambda>s. Inr [0, 1, 2, 3, 4, 5, 6, 7, 8]),
      to_float = digits_float,
      dict_keys = remdups\<rparr>"


text \<open>What \<^verbatim>\<open>load_results\<close> returns for that directory.\<close>

definition example_results :: "nat results" where
  "example_results = projr (snd (load_results example_env ''run''))"

text \<open>The same directory without its first segment file.\<close>

definition example_env_no_segment :: "nat env" where
  "example_env_no_segment = example_env\<lparr>path_isfile := (\<lambda>p. False)\<rparr>"

text \<open>
  A table of four species (a solid, a heavy tar of the phenol family, water and carbon
  monoxide), a species index, concentrations and mass fractions at two times.
\<close>

definition example_MW :: mw_table where
  "example_MW =
     [(''PLIG'', \<lparr>placeholder = Fin 100, phase = ''s'', family = None,
                  elements = Vec3 (Fin 2) (Fin 4) (Fin 1),
                  groups = Vec7 (Fin 1) 0 0 0 0 0 (Fin 1)\<rparr>),
      (''PHENOL'', \<lparr>placeholder = Fin 94, phase = ''t'', family = Some ''p'',
                    elements = Vec3 (Fin 6) (Fin 6) (Fin 1),
                    groups = Vec7 0 (Fin 1) 0 (Fin 5) 0 0 0\<rparr>),
      (''H2O'', \<lparr>placeholder = Fin 18, phase = ''H2O'', family = None,
                 elements = Vec3 0 (Fin 2) (Fin 1),
                 groups = Vec7 0 0 0 0 0 0 0\<rparr>),
      (''CO'', \<lparr>placeholder = Fin 28, phase = ''CO'', family = None,
                elements = Vec3 (Fin 1) 0 (Fin 1),
                groups = Vec7 (Fin 1) 0 0 0 0 0 0\<rparr>)]"

definition example_speciesindices :: "string \<rightharpoonup> nat" where
  "example_speciesindices = map_of [(''PLIG'', 0), (''PHENOL'', 1), (''H2O'', 2), (''CO'', 3)]"

definition example_y :: "npfloat list list" where
  "example_y = [[Fin 1, 0, 0, 0], [Fin (1 / 4), Fin (1 / 4), Fin (1 / 2), Fin 1]]"

definition example_m :: "npfloat list list" where
  "example_m = [[Fin 1, 0, 0, 0], [Fin (1 / 4), Fin (1 / 4), Fin (1 / 4), Fin (1 / 4)]]"

definition example_t :: "npfloat list" where
  "example_t = [Fin 0, Fin 10]"



definition example_report :: report where
  "example_report =
     projr (generate_report example_MW example_speciesindices example_y example_m example_t
              (Some ''run''))"

text \<open>A table with the solid only: no species is tagged as a tar or as water.\<close>

definition example_MW_solid :: mw_table where
  "example_MW_solid = take 1 example_MW"





section \<open>Properties of \<^verbatim>\<open>read_results_files\<close>\<close>

lemma parse_lines_length:
  "parse_lines env n ls = Inr (t, y, T) \<Longrightarrow>
   length t = length ls \<and> length y = length ls \<and> length T = length ls"
  by (induction ls arbitrary: t y T) (auto split: sum.splits prod.splits)

lemma parse_lines_nth:
  "parse_lines env n ls = Inr (t, y, T) \<Longrightarrow> i < length ls \<Longrightarrow>
   parse_line env n (ls ! i) = Inr (t ! i, y ! i, T ! i)"
proof (induction ls arbitrary: t y T i)
  case Nil
  then show ?case by simp
next
  case (Cons l ls)
  then show ?case
    by (cases i) (auto split: sum.splits prod.splits)
qed

lemma set_concentrations_row:
  "set_concentrations env j cs row = Inr row' \<Longrightarrow>
   length row' = length row \<and> j + length cs \<le> max j (length row) \<and>
   (\<forall>k < length cs. to_float env (cs ! k) = Some (row' ! (j + k))) \<and>
   (\<forall>k. k < j \<or> j + length cs \<le> k \<longrightarrow> row' ! k = row ! k)"
proof (induction cs arbitrary: j row)
  case Nil
  then show ?case by simp
next
  case (Cons c cs)
  from Cons.prems obtain v where v: "to_float env c = Some v" and j: "j < length row"
    and rec: "set_concentrations env (Suc j) cs (row[j := v]) = Inr row'"
    by (auto split: if_splits option.splits)
  note ih = Cons.IH [OF rec]
  have len: "length row' = length row" using ih by simp
  have at_j: "row' ! j = v" using ih j by simp
  have "\<forall>k < length (c # cs). to_float env ((c # cs) ! k) = Some (row' ! (j + k))"
  proof (intro allI impI)
    fix k assume "k < length (c # cs)"
    then show "to_float env ((c # cs) ! k) = Some (row' ! (j + k))"
      using ih v at_j by (cases k) auto
  qed
  moreover have "\<forall>k. k < j \<or> j + length (c # cs) \<le> k \<longrightarrow> row' ! k = row ! k"
    using ih by auto
  moreover have "j + length (c # cs) \<le> max j (length row)"
    using ih j by auto
  ultimately show ?case using len by blast
qed

lemma slice_1_m2_length: "length (slice_1_m2 flds) = length flds - 3"
  by (simp add: slice_1_m2_def)

lemma slice_1_m2_nth: "j < length flds - 3 \<Longrightarrow> slice_1_m2 flds ! j = flds ! Suc j"
  by (simp add: slice_1_m2_def)

lemma parse_line_fields:
  assumes "parse_line env n line = Inr (tv, row, Tv)"
  shows "(let flds = str_split TAB line in
            2 \<le> length flds \<and>
            to_float env (str_split (CHR '' '') (flds ! 0) ! 1) = Some tv \<and>
            to_float env (flds ! (length flds - 2)) = Some Tv \<and>
            length row = n \<and>
            (\<forall>j < length flds - 3. to_float env (flds ! Suc j) = Some (row ! j)) \<and>
            (\<forall>j. length flds - 3 \<le> j \<and> j < n \<longrightarrow> row ! j = 0))"
proof -
  define flds where "flds = str_split TAB line"
  from assms have two: "2 \<le> length flds"
    and tv: "to_float env (str_split (CHR '' '') (flds ! 0) ! 1) = Some tv"
    and Tv: "to_float env (flds ! (length flds - 2)) = Some Tv"
    and conc: "set_concentrations env 0 (slice_1_m2 flds) (replicate n 0) = Inr row"
    unfolding parse_line_def flds_def [symmetric] Let_def
    by (auto split: if_splits option.splits sum.splits)
  note facts = set_concentrations_row [OF conc]
  have len: "length row = n" using facts by simp
  have a: "\<forall>j < length flds - 3. to_float env (flds ! Suc j) = Some (row ! j)"
    using facts by (simp add: slice_1_m2_length slice_1_m2_nth)
  have b: "\<forall>j. length flds - 3 \<le> j \<and> j < n \<longrightarrow> row ! j = 0"
    using facts by (simp add: slice_1_m2_length)
  show ?thesis
    unfolding flds_def [symmetric] Let_def using two tv Tv len a b by blast
qed

text \<open>
  Claim C5, as amended. When \<^verbatim>\<open>read_results_files\<close> returns, the number of rows is the
  number of lines of the file minus 7, and row \<open>i\<close> comes from line \<open>i + 1\<close> of the file:
  the time is the second space-separated token of the first tab field, the temperature
  is the tab field before the last one (the last field is not used), the tab fields
  between the first field and the last two are the first concentrations of the row, and
  the remaining entries of the row are zero.
\<close>

theorem read_results_files_layout:
  assumes "file_content env filename = Some result"
    and "read_results_files env filename spl = Inr (t, y, T)"
  shows "int (length t) = int (length (readlines result)) - 7 \<and>
         length y = length t \<and> length T = length t \<and>
         (\<forall>i < length t.
            let flds = str_split TAB (readlines result ! Suc i) in
              2 \<le> length flds \<and>
              to_float env (str_split (CHR '' '') (flds ! 0) ! 1) = Some (t ! i) \<and>
              to_float env (flds ! (length flds - 2)) = Some (T ! i) \<and>
              length (y ! i) = length spl \<and>
              (\<forall>j < length flds - 3. to_float env (flds ! Suc j) = Some (y ! i ! j)) \<and>
              (\<forall>j. length flds - 3 \<le> j \<and> j < length spl \<longrightarrow> y ! i ! j = 0))"
proof -
  define ls where "ls = readlines result"
  define k where "k = nat (int (length ls) - 7)"
  from assms have nonneg: "0 \<le> int (length ls) - 7"
    and pl: "parse_lines env (length spl) (take k (drop 1 ls)) = Inr (t, y, T)"
    unfolding read_results_files_def ls_def k_def Let_def
    by (auto split: if_splits)
  have klen: "length (take k (drop 1 ls)) = k"
    using nonneg by (simp add: k_def)
  note lens = parse_lines_length [OF pl]
  have rows: "int (length t) = int (length ls) - 7"
    using lens klen nonneg by (simp add: k_def)
  have data: "take k (drop 1 ls) ! i = ls ! Suc i" if "i < k" for i
  proof -
    from that have "1 \<le> length ls" by (simp add: k_def)
    with that show ?thesis by simp
  qed
  have each: "parse_line env (length spl) (ls ! Suc i) = Inr (t ! i, y ! i, T ! i)"
    if "i < length t" for i
  proof -
    from that lens klen have "i < k" by simp
    with parse_lines_nth [OF pl, of i] klen data show ?thesis by simp
  qed
  show ?thesis
    unfolding ls_def [symmetric]
    using rows lens each [THEN parse_line_fields] by simp
qed

theorem read_results_files_layout_witness:
  "file_content example_env ''run/results_dir/ddasac_results_1.out'' = Some example_file1 \<and>
   read_results_files example_env ''run/results_dir/ddasac_results_1.out'' [''A'', ''B'']
     = Inr ([Fin 0, Fin 5], [[Fin 1, Fin 2], [Fin 3, Fin 4]], [Fin 300, Fin 310]) \<and>
   int (length [Fin 0, Fin 5]) = int (length (readlines example_file1)) - 7 \<and>
   (let flds = str_split TAB (readlines example_file1 ! Suc 0) in
      to_float example_env (flds ! (length flds - 2)) = Some ([Fin 300, Fin 310] ! 0))"
proof -
  have h1: "file_content example_env ''run/results_dir/ddasac_results_1.out''
              = Some example_file1"
    by (simp add: example_env_def)
  have h2: "read_results_files example_env ''run/results_dir/ddasac_results_1.out''
              [''A'', ''B'']
              = Inr ([Fin 0, Fin 5], [[Fin 1, Fin 2], [Fin 3, Fin 4]], [Fin 300, Fin 310])"
    by code_simp
  from read_results_files_layout [OF h1 h2]
  have rows: "int (length [Fin 0, Fin 5]) = int (length (readlines example_file1)) - 7"
    and each: "\<forall>i < length [Fin 0, Fin 5].
           let flds = str_split TAB (readlines example_file1 ! Suc i) in
             to_float example_env (flds ! (length flds - 2)) = Some ([Fin 300, Fin 310] ! i)"
    unfolding Let_def by blast+
  have first: "0 < length [Fin 0, Fin 5]"
    by simp
  from each [rule_format, OF first]
  have "let flds = str_split TAB (readlines example_file1 ! Suc 0) in
      to_float example_env (flds ! (length flds - 2)) = Some ([Fin 300, Fin 310] ! 0)" .
  with h1 h2 rows show ?thesis by blast
qed

text \<open>
  Claim C5 as stated fails: the first data line of the example file has the tab fields
  \<^verbatim>\<open>a 0\<close>, \<^verbatim>\<open>1\<close>, \<^verbatim>\<open>2\<close>, \<^verbatim>\<open>300\<close> and \<^verbatim>\<open>9\<close>; the temperature read is 300, the
  field before the last, and the last field, 9, is the one that is not used.
\<close>

theorem read_results_files_last_field_counterexample:
  "read_results_files example_env ''run/results_dir/ddasac_results_1.out'' [''A'', ''B'']
     = Inr ([Fin 0, Fin 5], [[Fin 1, Fin 2], [Fin 3, Fin 4]], [Fin 300, Fin 310]) \<and>
   str_split TAB (readlines example_file1 ! 1) = [''a 0'', ''1'', ''2'', ''300'', ''9'' @ [NL]] \<and>
   to_float example_env (''9'' @ [NL]) = Some (Fin 9)"
  by code_simp


section \<open>Properties of \<^verbatim>\<open>load_results\<close>\<close>

lemma load_results_Inr:
  assumes "load_results env path = (out, Inr r)"
  shows "\<exists>body. file_content env (path @ ''/model.c'') = Some body"
    and "read_model env path = Inr sl \<Longrightarrow> specieslist_ddasac r = sort sl"
    and "read_model env path = Inr sl \<Longrightarrow> speciesindices_ddasac r = build_speciesindices sl"
    and "read_model env path = Inr sl \<Longrightarrow> indices_to_species_ddasac r =
           zip_values_keys (build_speciesindices sl) (dict_keys env sl)"
    and "read_model env path = Inr sl \<Longrightarrow>
         load_segments env (path @ ''/results_dir'') (sort sl)
           = (out, Inr (t_res r, y_res r, T_res r))"
proof -
  define rpath where "rpath = path @ ''/results_dir''"
  from assms obtain pp where pp: "load_params env rpath = Inr pp"
    unfolding load_results_def Let_def rpath_def
    by (cases "load_params env (path @ ''/results_dir'')") (simp_all split: if_splits)
  from assms pp obtain sl' where sl': "read_model env path = Inr sl'"
    unfolding load_results_def Let_def rpath_def
    by (cases "read_model env path") (simp_all split: if_splits)
  then show "\<exists>body. file_content env (path @ ''/model.c'') = Some body"
    unfolding read_model_def by (simp split: option.splits)
  from assms pp sl' obtain seg
    where seg: "snd (load_segments env rpath (sort sl')) = Inr seg"
    unfolding load_results_def Let_def rpath_def
    by (cases "snd (load_segments env (path @ ''/results_dir'') (sort sl'))")
       (simp_all split: if_splits)
  from assms pp sl' seg have out: "out = fst (load_segments env rpath (sort sl'))"
    and r: "r = make_results pp seg (sort sl') (build_speciesindices sl')
                  (zip_values_keys (build_speciesindices sl') (dict_keys env sl'))"
    unfolding load_results_def Let_def rpath_def by (simp_all split: if_splits)
  show "specieslist_ddasac r = sort sl" if "read_model env path = Inr sl"
    using that sl' unfolding r make_results_def by simp
  show "speciesindices_ddasac r = build_speciesindices sl" if "read_model env path = Inr sl"
    using that sl' unfolding r make_results_def by simp
  show "indices_to_species_ddasac r =
           zip_values_keys (build_speciesindices sl) (dict_keys env sl)"
    if "read_model env path = Inr sl"
    using that sl' unfolding r make_results_def by simp
  show "load_segments env (path @ ''/results_dir'') (sort sl)
           = (out, Inr (t_res r, y_res r, T_res r))"
    if "read_model env path = Inr sl"
    using that sl' seg out unfolding r make_results_def rpath_def
    by (simp add: prod_eq_iff)
qed

lemma read_model_body:
  "file_content env (path @ ''/model.c'') = Some body \<Longrightarrow>
   read_model env path = Inr (parse_species body)"
  by (simp add: read_model_def)

lemma example_results_loaded:
  "load_results example_env ''run''
     = ([''There is not a third DDASAC results file (cool down period)''],
        Inr example_results)"
proof -
  have "fst (load_results example_env ''run'')
          = [''There is not a third DDASAC results file (cool down period)'']"
    by code_simp
  moreover have "\<not> isl (snd (load_results example_env ''run''))"
    by code_simp
  then have "snd (load_results example_env ''run'') = Inr example_results"
    by (simp add: example_results_def)
  ultimately show ?thesis by (simp add: prod_eq_iff)
qed

lemma example_model_file:
  "file_content example_env (''run'' @ ''/model.c'') = Some example_model"
  by (simp add: example_env_def)

lemma example_model_species: "parse_species example_model = [''B'', ''A'']"
  by code_simp

text \<open>
  Claim C4. \<^verbatim>\<open>load_results\<close> raises \<open>ValueError\<close> (the configuration error of the
  specification) when \<^verbatim>\<open>path + '/results_dir'\<close> does not exist: nothing has been read
  or printed by then, whatever else the environment holds. It raises \<open>IOError\<close> (the
  input format error of the specification) when the directory exists, the parameter
  file holds the nine parameters and the first segment file is missing.
\<close>

theorem load_results_errors:
  "(\<not> path_exists env (path @ ''/results_dir'') \<longrightarrow>
      load_results env path = ([], Inl ValueError)) \<and>
   (path_exists env (path @ ''/results_dir'') \<and>
    file_content env ((path @ ''/results_dir'') @ ''/prog_params.pkl'') = Some params \<and>
    pickle_load env params = Inr prog_params \<and> 9 \<le> length prog_params \<and>
    \<not> path_isfile env ((path @ ''/results_dir'') @ ''/ddasac_results_1.out'') \<longrightarrow>
      load_results env path = ([], Inl IOError))"
  by (simp add: load_results_def load_params_def)

theorem load_results_errors_witness:
  "\<not> path_exists example_env (''nowhere'' @ ''/results_dir'') \<and>
   load_results example_env ''nowhere'' = ([], Inl ValueError) \<and>
   path_exists example_env_no_segment (''run'' @ ''/results_dir'') \<and>
   file_content example_env_no_segment ((''run'' @ ''/results_dir'') @ ''/prog_params.pkl'')
     = Some ''params'' \<and>
   pickle_load example_env_no_segment ''params'' = Inr [0, 1, 2, 3, 4, 5, 6, 7, 8] \<and>
   9 \<le> length [0, 1, 2, 3, 4, 5, 6, 7, 8 :: nat] \<and>
   \<not> path_isfile example_env_no_segment
       ((''run'' @ ''/results_dir'') @ ''/ddasac_results_1.out'') \<and>
   load_results example_env_no_segment ''run'' = ([], Inl IOError)"
proof -
  have h1: "\<not> path_exists example_env (''nowhere'' @ ''/results_dir'')"
    by (simp add: example_env_def)
  have h2: "path_exists example_env_no_segment (''run'' @ ''/results_dir'') \<and>
      file_content example_env_no_segment
          ((''run'' @ ''/results_dir'') @ ''/prog_params.pkl'') = Some ''params'' \<and>
      pickle_load example_env_no_segment ''params'' = Inr [0, 1, 2, 3, 4, 5, 6, 7, 8] \<and>
      9 \<le> length [0, 1, 2, 3, 4, 5, 6, 7, 8 :: nat] \<and>
      \<not> path_isfile example_env_no_segment
          ((''run'' @ ''/results_dir'') @ ''/ddasac_results_1.out'')"
    by (simp add: example_env_no_segment_def example_env_def)
  from h1 load_results_errors [where env = example_env and path = "''nowhere''"]
  have c1: "load_results example_env ''nowhere'' = ([], Inl ValueError)"
    by blast
  from h2 load_results_errors [where env = example_env_no_segment and path = "''run''"
      and params = "''params''" and prog_params = "[0, 1, 2, 3, 4, 5, 6, 7, 8]"]
  have c2: "load_results example_env_no_segment ''run'' = ([], Inl IOError)"
    by blast
  from h1 h2 c1 c2 show ?thesis by blast
qed

lemma build_speciesindices_snoc:
  "build_speciesindices (sl @ [s]) = (build_speciesindices sl)(s \<mapsto> length sl)"
  by (simp add: build_speciesindices_def enumerate_append_eq)

lemma build_speciesindices_Some:
  "build_speciesindices sl s = Some i \<Longrightarrow> i < length sl \<and> sl ! i = s"
proof (induction sl arbitrary: i rule: rev_induct)
  case Nil
  then show ?case by (simp add: build_speciesindices_def)
next
  case (snoc x xs)
  then show ?case
    by (auto simp: build_speciesindices_snoc nth_append less_Suc_eq split: if_splits)
qed

lemma build_speciesindices_dom:
  "s \<in> set sl \<Longrightarrow> \<exists>i. build_speciesindices sl s = Some i"
  by (induction sl rule: rev_induct) (auto simp: build_speciesindices_snoc)

lemma build_speciesindices_distinct:
  assumes "distinct sl" and "k < length sl"
  shows "build_speciesindices sl (sl ! k) = Some k"
proof -
  from assms(2) have "sl ! k \<in> set sl" by simp
  then obtain i where i: "build_speciesindices sl (sl ! k) = Some i"
    using build_speciesindices_dom by blast
  from build_speciesindices_Some [OF i] have "i < length sl" and "sl ! i = sl ! k"
    by simp_all
  with assms have "i = k" by (simp add: nth_eq_iff_index_eq)
  with i show ?thesis by simp
qed

text \<open>
  Claim C2, as amended. The species index follows the order of the model file, which is
  the column order of the solver output: when the names of the model file are distinct,
  the species listed at position \<open>k\<close> there is mapped to \<open>k\<close>. The returned species list
  is that list sorted.
\<close>

theorem species_index_model_order:
  assumes "load_results env path = (out, Inr r)"
    and "file_content env (path @ ''/model.c'') = Some body"
  shows "specieslist_ddasac r = sort (parse_species body) \<and>
         (distinct (parse_species body) \<longrightarrow>
            (\<forall>k < length (parse_species body).
               speciesindices_ddasac r (parse_species body ! k) = Some k))"
proof -
  note rm = read_model_body [OF assms(2)]
  have sp: "specieslist_ddasac r = sort (parse_species body)"
    using assms(1) rm by (rule load_results_Inr(2))
  have ind: "speciesindices_ddasac r = build_speciesindices (parse_species body)"
    using assms(1) rm by (rule load_results_Inr(3))
  have "\<forall>k < length (parse_species body).
          speciesindices_ddasac r (parse_species body ! k) = Some k"
    if "distinct (parse_species body)"
    unfolding ind using that by (intro allI impI) (rule build_speciesindices_distinct)
  with sp show ?thesis by blast
qed

theorem species_index_model_order_witness:
  "load_results example_env ''run''
     = ([''There is not a third DDASAC results file (cool down period)''],
        Inr example_results) \<and>
   file_content example_env (''run'' @ ''/model.c'') = Some example_model \<and>
   distinct (parse_species example_model) \<and>
   specieslist_ddasac example_results = sort (parse_species example_model) \<and>
   speciesindices_ddasac example_results (parse_species example_model ! 0) = Some 0 \<and>
   speciesindices_ddasac example_results (parse_species example_model ! 1) = Some 1"
proof -
  note inst = species_index_model_order [OF example_results_loaded example_model_file]
  have d: "distinct (parse_species example_model)"
    by (simp add: example_model_species)
  from inst d have
    all: "\<forall>k < length (parse_species example_model).
            speciesindices_ddasac example_results (parse_species example_model ! k) = Some k"
    by blast
  have "0 < length (parse_species example_model)" "1 < length (parse_species example_model)"
    by (simp_all add: example_model_species)
  with all have
    "speciesindices_ddasac example_results (parse_species example_model ! 0) = Some 0"
    "speciesindices_ddasac example_results (parse_species example_model ! 1) = Some 1"
    by blast+
  with inst d example_results_loaded example_model_file show ?thesis by blast
qed

text \<open>
  Claim C2 as stated fails: the model file of the example declares \<^verbatim>\<open>B, A\<close>; the
  returned list is \<^verbatim>\<open>['A', 'B']\<close>, and its first species \<^verbatim>\<open>A\<close> has index 1, its
  second species \<^verbatim>\<open>B\<close> index 0.
\<close>

theorem species_index_alphabetical_counterexample:
  "snd (load_results example_env ''run'') = Inr example_results \<and>
   specieslist_ddasac example_results = [''A'', ''B''] \<and>
   speciesindices_ddasac example_results (specieslist_ddasac example_results ! 0) = Some 1 \<and>
   speciesindices_ddasac example_results (specieslist_ddasac example_results ! 1) = Some 0"
proof -
  have "specieslist_ddasac example_results = [''A'', ''B''] \<and>
   speciesindices_ddasac example_results (specieslist_ddasac example_results ! 0) = Some 1 \<and>
   speciesindices_ddasac example_results (specieslist_ddasac example_results ! 1) = Some 0"
    by code_simp
  moreover have "snd (load_results example_env ''run'') = Inr example_results"
    by (simp add: example_results_loaded)
  ultimately show ?thesis by (rule conjI [rotated])
qed

lemma zip_values_keys_untouched:
  "\<forall>k \<in> set ks. d k \<noteq> Some i \<Longrightarrow>
   fold (\<lambda>k r. case d k of None \<Rightarrow> r | Some v \<Rightarrow> r(v \<mapsto> k)) ks r0 i = r0 i"
  by (induction ks arbitrary: r0) (auto split: option.splits)

lemma zip_values_keys_fold:
  "s \<in> set ks \<Longrightarrow> d s = Some i \<Longrightarrow> \<forall>k \<in> set ks. d k = Some i \<longrightarrow> k = s \<Longrightarrow>
   fold (\<lambda>k r. case d k of None \<Rightarrow> r | Some v \<Rightarrow> r(v \<mapsto> k)) ks r0 i = Some s"
proof (induction ks arbitrary: r0)
  case Nil
  then show ?case by simp
next
  case (Cons k ks)
  have rest: "\<forall>k' \<in> set ks. d k' = Some i \<longrightarrow> k' = s"
    using Cons.prems(3) by simp
  show ?case
  proof (cases "s \<in> set ks")
    case True
    from Cons.IH [OF True Cons.prems(2) rest] show ?thesis by simp
  next
    case False
    with Cons.prems(1) have ks: "k = s" by simp
    have "\<forall>k' \<in> set ks. d k' \<noteq> Some i"
      using rest False by blast
    from zip_values_keys_untouched [OF this] show ?thesis
      by (simp add: ks Cons.prems(2))
  qed
qed

lemma zip_values_keys_Some:
  "fold (\<lambda>k r. case d k of None \<Rightarrow> r | Some v \<Rightarrow> r(v \<mapsto> k)) ks r0 i = Some s \<Longrightarrow>
   r0 i = Some s \<or> d s = Some i"
proof (induction ks arbitrary: r0)
  case Nil
  then show ?case by simp
next
  case (Cons k ks)
  show ?case
  proof (cases "d k")
    case None
    with Cons show ?thesis by simp
  next
    case (Some v)
    with Cons.prems have "fold (\<lambda>k r. case d k of None \<Rightarrow> r | Some v \<Rightarrow> r(v \<mapsto> k)) ks
        (r0(v \<mapsto> k)) i = Some s"
      by simp
    from Cons.IH [OF this] have "(r0(v \<mapsto> k)) i = Some s \<or> d s = Some i" .
    with Some show ?thesis by (auto split: if_splits)
  qed
qed

text \<open>
  Claim C3. For every species \<open>s\<close> of the returned list,
  \<^verbatim>\<open>indices_to_species[speciesindices[s]] == s\<close>, in whatever order the dictionary
  enumerates its keys; and every entry of \<^verbatim>\<open>indices_to_species\<close> is an entry of
  \<^verbatim>\<open>speciesindices\<close> reversed.
\<close>

theorem species_index_round_trip:
  assumes "load_results env path = (out, Inr r)"
    and "file_content env (path @ ''/model.c'') = Some body"
    and "dict_keys_ok env (parse_species body)"
  shows "(\<forall>s \<in> set (specieslist_ddasac r).
           Option.bind (speciesindices_ddasac r s) (indices_to_species_ddasac r) = Some s) \<and>
         (\<forall>i s. indices_to_species_ddasac r i = Some s \<longrightarrow> speciesindices_ddasac r s = Some i)"
proof -
  define sl where "sl = parse_species body"
  define d where "d = build_speciesindices sl"
  have rm: "read_model env path = Inr sl"
    unfolding sl_def using assms(2) by (rule read_model_body)
  have sp: "specieslist_ddasac r = sort sl"
    and ind: "speciesindices_ddasac r = d"
    and nam: "indices_to_species_ddasac r = zip_values_keys d (dict_keys env sl)"
    unfolding d_def using load_results_Inr(2-4) [OF assms(1) rm] by simp_all
  from assms(3) have keys: "set (dict_keys env sl) = set sl"
    by (simp add: dict_keys_ok_def sl_def)
  have fwd: "Option.bind (d s) (zip_values_keys d (dict_keys env sl)) = Some s"
    if "s \<in> set sl" for s
  proof -
    from that obtain i where i: "d s = Some i"
      unfolding d_def using build_speciesindices_dom by blast
    have inj: "k = s" if "d k = Some i" for k
      using build_speciesindices_Some [of sl k i] build_speciesindices_Some [of sl s i] that i
      unfolding d_def by simp
    have "s \<in> set (dict_keys env sl)"
      using that keys by simp
    moreover have "\<forall>k \<in> set (dict_keys env sl). d k = Some i \<longrightarrow> k = s"
      using inj by blast
    ultimately have "zip_values_keys d (dict_keys env sl) i = Some s"
      unfolding zip_values_keys_def
      using i by (intro zip_values_keys_fold)
    with i show ?thesis by simp
  qed
  have bwd: "d s = Some i" if "zip_values_keys d (dict_keys env sl) i = Some s" for i s
    using zip_values_keys_Some [of d "dict_keys env sl" Map.empty i s] that
    unfolding zip_values_keys_def by simp
  have a: "\<forall>s \<in> set (specieslist_ddasac r).
           Option.bind (speciesindices_ddasac r s) (indices_to_species_ddasac r) = Some s"
    unfolding sp ind nam using fwd by simp
  have b: "\<forall>i s. indices_to_species_ddasac r i = Some s \<longrightarrow> speciesindices_ddasac r s = Some i"
    unfolding ind nam using bwd by blast
  from a b show ?thesis ..
qed

theorem species_index_round_trip_witness:
  "load_results example_env ''run''
     = ([''There is not a third DDASAC results file (cool down period)''],
        Inr example_results) \<and>
   file_content example_env (''run'' @ ''/model.c'') = Some example_model \<and>
   dict_keys_ok example_env (parse_species example_model) \<and>
   ''A'' \<in> set (specieslist_ddasac example_results) \<and>
   Option.bind (speciesindices_ddasac example_results ''A'')
     (indices_to_species_ddasac example_results) = Some ''A''"
proof -
  have ok: "dict_keys_ok example_env (parse_species example_model)"
    unfolding example_model_species by code_simp
  note inst = species_index_round_trip [OF example_results_loaded example_model_file ok]
  have mem: "''A'' \<in> set (specieslist_ddasac example_results)"
    by code_simp
  with inst have "Option.bind (speciesindices_ddasac example_results ''A'')
     (indices_to_species_ddasac example_results) = Some ''A''"
    by blast
  with example_results_loaded example_model_file ok mem show ?thesis by blast
qed

lemma fin_list: "list_all is_fin xs \<Longrightarrow> \<exists>rs. xs = map Fin rs"
proof (induction xs)
  case Nil
  then show ?case by simp
next
  case (Cons x xs)
  then obtain rs where "xs = map Fin rs" by auto
  moreover from Cons.prems obtain a where "x = Fin a" by (cases x) auto
  ultimately have "x # xs = map Fin (a # rs)" by simp
  then show ?case by (rule exI [of _ "a # rs"])
qed

lemma nondecreasing_Fin: "nondecreasing (map Fin rs) = sorted rs"
proof -
  have "successively fle (map Fin rs) = successively (\<le>) rs"
    by (simp add: successively_map)
  also have "\<dots> = sorted rs"
    by (rule successively_conv_sorted_wrt) simp
  finally show ?thesis by (simp add: nondecreasing_def)
qed

lemma sorted_shift:
  fixes zs :: "real list"
  shows "sorted zs \<Longrightarrow> sorted (map (\<lambda>x. c + x) zs)"
  by (induction zs) auto

lemma sorted_le_last:
  fixes r1 :: "real list"
  assumes "sorted r1" and "x \<in> set r1"
  shows "x \<le> last r1"
proof -
  from assms(2) obtain i where i: "i < length r1" "r1 ! i = x"
    by (auto simp: in_set_conv_nth)
  then have ne: "r1 \<noteq> []" by auto
  have "r1 ! i \<le> r1 ! (length r1 - 1)"
    using assms(1) i by (intro sorted_nth_mono) auto
  with i ne show ?thesis by (simp add: last_conv_nth)
qed

lemma sorted_concat_offset:
  fixes r1 r2 :: "real list"
  assumes "sorted r1" and "sorted r2" and "0 \<le> hd r2"
  shows "sorted (r1 @ map (\<lambda>x. last r1 + x) (drop 1 r2))"
proof -
  have tail: "sorted (drop 1 r2)"
    using assms(2) by (rule sorted_wrt_drop)
  have pos: "0 \<le> z" if "z \<in> set (drop 1 r2)" for z
  proof (cases r2)
    case Nil
    with that show ?thesis by simp
  next
    case (Cons h tl)
    with that assms(2,3) show ?thesis by auto
  qed
  have "x \<le> last r1 + z" if "x \<in> set r1" and "z \<in> set (drop 1 r2)" for x z
    using sorted_le_last [OF assms(1) that(1)] pos [OF that(2)] by simp
  then show ?thesis
    using assms(1) sorted_shift [OF tail, of "last r1"]
    by (auto simp: sorted_append)
qed

lemma read_results_files_missing:
  "file_content env f = None \<Longrightarrow> read_results_files env f sl = Inl IOError"
  by (simp add: read_results_files_def)

lemma load_segments_two:
  assumes "read_results_files env (rpath @ ''/ddasac_results_1.out'') sl = Inr (t1, y1, T1)"
    and "read_results_files env (rpath @ ''/ddasac_results_2.out'') sl = Inr (t2, y2, T2)"
    and "file_content env (rpath @ ''/ddasac_results_3.out'') = None"
    and "load_segments env rpath sl = (out, Inr (t, y, T))"
  shows "t1 \<noteq> [] \<and> t = t1 @ map (\<lambda>x. last t1 + x) (drop 1 t2)"
  using assms(4)
  unfolding load_segments_def add_segment_def
  by (simp add: assms(1,2) read_results_files_missing [OF assms(3)] split: if_splits)

text \<open>
  Claim C1. When the first two segment files are read and the third one is missing,
  the first segment is not empty and, for a second segment that is not empty, the
  combined time array has \<open>n1 + n2 - 1\<close> entries: the times of the first segment, then
  the times of the second one without its first, each with the last time of the first
  segment added. For finite times it is non-decreasing when both segments are and the
  second one starts at a time that is not negative.
\<close>

theorem load_results_two_segments:
  assumes "load_results env path = (out, Inr r)"
    and "read_results_files env ((path @ ''/results_dir'') @ ''/ddasac_results_1.out'')
           (specieslist_ddasac r) = Inr (t1, y1, T1)"
    and "read_results_files env ((path @ ''/results_dir'') @ ''/ddasac_results_2.out'')
           (specieslist_ddasac r) = Inr (t2, y2, T2)"
    and "file_content env ((path @ ''/results_dir'') @ ''/ddasac_results_3.out'') = None"
    and "t2 \<noteq> []"
  shows "t1 \<noteq> [] \<and>
         length (t_res r) = length t1 + length t2 - 1 \<and>
         t_res r = t1 @ map (\<lambda>x. last t1 + x) (drop 1 t2) \<and>
         (list_all is_fin t1 \<and> list_all is_fin t2 \<and>
          nondecreasing t1 \<and> nondecreasing t2 \<and> fle 0 (hd t2)
            \<longrightarrow> nondecreasing (t_res r))"
proof -
  from load_results_Inr(1) [OF assms(1)] obtain body
    where body: "file_content env (path @ ''/model.c'') = Some body" ..
  note rm = read_model_body [OF body]
  have sp: "specieslist_ddasac r = sort (parse_species body)"
    using assms(1) rm by (rule load_results_Inr(2))
  have segs: "load_segments env (path @ ''/results_dir'') (specieslist_ddasac r)
                = (out, Inr (t_res r, y_res r, T_res r))"
    unfolding sp using assms(1) rm by (rule load_results_Inr(5))
  from load_segments_two [OF assms(2,3,4) segs]
  have ne: "t1 \<noteq> []" and t: "t_res r = t1 @ map (\<lambda>x. last t1 + x) (drop 1 t2)"
    by simp_all
  have len: "length (t_res r) = length t1 + length t2 - 1"
    using assms(5) unfolding t by (cases t2) simp_all
  have mono: "nondecreasing (t_res r)"
    if fin1: "list_all is_fin t1" and fin2: "list_all is_fin t2"
      and s1: "nondecreasing t1" and s2: "nondecreasing t2" and pos: "fle 0 (hd t2)"
  proof -
    from fin_list [OF fin1] obtain r1 where r1: "t1 = map Fin r1" ..
    from fin_list [OF fin2] obtain r2 where r2: "t2 = map Fin r2" ..
    from ne r1 have ne1: "r1 \<noteq> []" by auto
    from assms(5) r2 have ne2: "r2 \<noteq> []" by auto
    have so1: "sorted r1" using s1 unfolding r1 nondecreasing_Fin .
    have so2: "sorted r2" using s2 unfolding r2 nondecreasing_Fin .
    have p: "0 \<le> hd r2"
      using pos ne2 unfolding r2 by (simp add: hd_map zero_npfloat_def)
    have "t_res r = map Fin (r1 @ map (\<lambda>x. last r1 + x) (drop 1 r2))"
      unfolding t r1 r2 using ne1 by (simp add: last_map drop_map)
    then show ?thesis
      using sorted_concat_offset [OF so1 so2 p] by (simp only: nondecreasing_Fin)
  qed
  from ne len t mono show ?thesis by blast
qed

theorem load_results_two_segments_witness:
  "load_results example_env ''run''
     = ([''There is not a third DDASAC results file (cool down period)''],
        Inr example_results) \<and>
   read_results_files example_env ((''run'' @ ''/results_dir'') @ ''/ddasac_results_1.out'')
       (specieslist_ddasac example_results)
     = Inr ([Fin 0, Fin 5], [[Fin 1, Fin 2], [Fin 3, Fin 4]], [Fin 300, Fin 310]) \<and>
   read_results_files example_env ((''run'' @ ''/results_dir'') @ ''/ddasac_results_2.out'')
       (specieslist_ddasac example_results)
     = Inr ([Fin 0, Fin 2, Fin 4], [[Fin 3, Fin 4], [Fin 5, Fin 6], [Fin 7, Fin 8]],
            [Fin 310, Fin 310, Fin 310]) \<and>
   file_content example_env ((''run'' @ ''/results_dir'') @ ''/ddasac_results_3.out'') = None \<and>
   list_all is_fin [Fin 0, Fin 5] \<and> list_all is_fin [Fin 0, Fin 2, Fin 4] \<and>
   nondecreasing [Fin 0, Fin 5] \<and> nondecreasing [Fin 0, Fin 2, Fin 4] \<and>
   fle 0 (hd [Fin 0, Fin 2, Fin 4]) \<and>
   length (t_res example_results) = length [Fin 0, Fin 5] + length [Fin 0, Fin 2, Fin 4] - 1 \<and>
   t_res example_results = [Fin 0, Fin 5, Fin 7, Fin 9] \<and>
   nondecreasing (t_res example_results)"
proof -
  have s1: "read_results_files example_env
       ((''run'' @ ''/results_dir'') @ ''/ddasac_results_1.out'')
       (specieslist_ddasac example_results)
     = Inr ([Fin 0, Fin 5], [[Fin 1, Fin 2], [Fin 3, Fin 4]], [Fin 300, Fin 310])"
    by code_simp
  have s2: "read_results_files example_env
       ((''run'' @ ''/results_dir'') @ ''/ddasac_results_2.out'')
       (specieslist_ddasac example_results)
     = Inr ([Fin 0, Fin 2, Fin 4], [[Fin 3, Fin 4], [Fin 5, Fin 6], [Fin 7, Fin 8]],
            [Fin 310, Fin 310, Fin 310])"
    by code_simp
  have s3: "file_content example_env
       ((''run'' @ ''/results_dir'') @ ''/ddasac_results_3.out'') = None"
    by (simp add: example_env_def)
  have ne: "[Fin 0, Fin 2, Fin 4] \<noteq> []"
    by simp
  have pre: "list_all is_fin [Fin 0, Fin 5] \<and> list_all is_fin [Fin 0, Fin 2, Fin 4] \<and>
      nondecreasing [Fin 0, Fin 5] \<and> nondecreasing [Fin 0, Fin 2, Fin 4] \<and>
      fle 0 (hd [Fin 0, Fin 2, Fin 4])"
    by (simp add: nondecreasing_def zero_npfloat_def)
  note inst = load_results_two_segments [OF example_results_loaded s1 s2 s3 ne]
  from inst have len: "length (t_res example_results)
      = length [Fin 0, Fin 5] + length [Fin 0, Fin 2, Fin 4] - 1"
    by blast
  from inst have "t_res example_results
      = [Fin 0, Fin 5] @ map (\<lambda>x. last [Fin 0, Fin 5] + x) (drop 1 [Fin 0, Fin 2, Fin 4])"
    by blast
  then have t: "t_res example_results = [Fin 0, Fin 5, Fin 7, Fin 9]"
    by simp
  from inst pre have mono: "nondecreasing (t_res example_results)"
    by blast
  from example_results_loaded s1 s2 s3 pre len t mono show ?thesis by blast
qed


section \<open>Properties of \<^verbatim>\<open>tar_elem_analysis\<close>\<close>








lemma ea_loop_no_match:
  "list_all (\<lambda>sp. phase (snd sp) \<notin> set tar_tags) MW \<Longrightarrow>
   ea_loop MW ind y ti acc = Inr acc"
  by (induction MW) auto

lemma C_fun_loop_no_match:
  "fractions \<noteq> [''initial''] \<Longrightarrow>
   list_all (\<lambda>sp. phase (snd sp) \<notin> set fractions) MW \<Longrightarrow>
   C_fun_loop MW fractions ind y time acc = Inr acc"
  by (induction MW) auto

lemma nan3_zeros: "div3 zeros3 (sum3 zeros3) = nan3"
  "div3 (mul3 zeros3 atomic_weights) (sum3 (mul3 zeros3 atomic_weights)) = nan3"
  by (simp_all add: zeros3_def nan3_def zero_npfloat_def atomic_weights_def)

lemma nan7_zeros: "div7 zeros7 (sum7 zeros7) = nan7"
  by (simp add: zeros7_def nan7_def zero_npfloat_def)

text \<open>
  Claim C8. When no species of the table carries one of the tags \<^verbatim>\<open>'t'\<close>, \<^verbatim>\<open>'lt'\<close>,
  \<^verbatim>\<open>'H2O'\<close>, and the first loop and the choice of the time succeed (they do not depend
  on the tags), \<^verbatim>\<open>tar_elem_analysis\<close> returns: \<^verbatim>\<open>ea\<close> is the zero vector and both of its
  percentage vectors are \<open>NaN\<close> in every component. When \<open>fractions\<close> is a list of tags
  that no species of the table carries, \<^verbatim>\<open>C_fun_gen\<close> returns for every index, matrix
  and time: the sums are the zero vector and the result is \<open>NaN\<close> in every component.
\<close>

theorem empty_filter_gives_nan:
  "(ea0_loop MW speciesindices y zeros3 = Inr e0 \<and>
    choose_time t tc = Inr (ti, msg) \<and>
    list_all (\<lambda>sp. phase (snd sp) \<notin> set tar_tags) MW
    \<longrightarrow> (\<exists>a. tar_elem_analysis MW speciesindices y t tc = Inr a \<and>
             ea a = zeros3 \<and> ea_molpercent a = nan3 \<and> ea_wtpercent a = nan3)) \<and>
   (fractions \<noteq> [''initial''] \<and>
    list_all (\<lambda>sp. phase (snd sp) \<notin> set fractions) MW
    \<longrightarrow> C_fun_loop MW fractions speciesindices y time zeros7 = Inr zeros7 \<and>
        C_fun_gen MW fractions speciesindices y time = Inr nan7)"
proof (intro conjI impI)
  assume h: "ea0_loop MW speciesindices y zeros3 = Inr e0 \<and>
    choose_time t tc = Inr (ti, msg) \<and>
    list_all (\<lambda>sp. phase (snd sp) \<notin> set tar_tags) MW"
  then have loop: "ea_loop MW speciesindices y ti zeros3 = Inr zeros3"
    by (simp add: ea_loop_no_match)
  show "\<exists>a. tar_elem_analysis MW speciesindices y t tc = Inr a \<and>
             ea a = zeros3 \<and> ea_molpercent a = nan3 \<and> ea_wtpercent a = nan3"
    unfolding tar_elem_analysis_def using h loop by (simp add: Let_def nan3_zeros)
next
  assume h: "fractions \<noteq> [''initial''] \<and>
    list_all (\<lambda>sp. phase (snd sp) \<notin> set fractions) MW"
  then show "C_fun_loop MW fractions speciesindices y time zeros7 = Inr zeros7"
    by (simp add: C_fun_loop_no_match)
  with h show "C_fun_gen MW fractions speciesindices y time = Inr nan7"
    by (simp add: C_fun_gen_def nan7_zeros)
qed

theorem empty_filter_gives_nan_witness:
  "ea0_loop example_MW_solid example_speciesindices example_y zeros3
     = Inr (Vec3 (Fin 2) (Fin 4) (Fin 1)) \<and>
   choose_time example_t T_end = Inr (1, Done_at_end) \<and>
   list_all (\<lambda>sp. phase (snd sp) \<notin> set tar_tags) example_MW_solid \<and>
   (\<exists>a. tar_elem_analysis example_MW_solid example_speciesindices example_y example_t T_end
          = Inr a \<and>
        ea a = zeros3 \<and> ea_molpercent a = nan3 \<and> ea_wtpercent a = nan3) \<and>
   [''g''] \<noteq> [''initial''] \<and>
   list_all (\<lambda>sp. phase (snd sp) \<notin> set [''g'']) example_MW \<and>
   C_fun_loop example_MW [''g''] example_speciesindices example_y 1 zeros7 = Inr zeros7 \<and>
   C_fun_gen example_MW [''g''] example_speciesindices example_y 1 = Inr nan7"
proof -
  have h1: "ea0_loop example_MW_solid example_speciesindices example_y zeros3
              = Inr (Vec3 (Fin 2) (Fin 4) (Fin 1)) \<and>
            choose_time example_t T_end = Inr (1, Done_at_end) \<and>
            list_all (\<lambda>sp. phase (snd sp) \<notin> set tar_tags) example_MW_solid"
    by code_simp
  have h2: "[''g''] \<noteq> [''initial''] \<and>
            list_all (\<lambda>sp. phase (snd sp) \<notin> set [''g'']) example_MW"
    by code_simp
  note inst = empty_filter_gives_nan [where MW = example_MW_solid
      and speciesindices = example_speciesindices and y = example_y and t = example_t
      and tc = T_end and ti = 1 and msg = Done_at_end
      and ?e0.0 = "Vec3 (Fin 2) (Fin 4) (Fin 1)"]
  from inst h1 have c1:
    "\<exists>a. tar_elem_analysis example_MW_solid example_speciesindices example_y example_t T_end
          = Inr a \<and>
        ea a = zeros3 \<and> ea_molpercent a = nan3 \<and> ea_wtpercent a = nan3"
    by blast
  note inst2 = empty_filter_gives_nan [where MW = example_MW
      and speciesindices = example_speciesindices and y = example_y
      and fractions = "[''g'']" and time = 1]
  from inst2 h2 have c2:
    "C_fun_loop example_MW [''g''] example_speciesindices example_y 1 zeros7 = Inr zeros7 \<and>
     C_fun_gen example_MW [''g''] example_speciesindices example_y 1 = Inr nan7"
    by blast
  from h1 h2 c1 c2 show ?thesis by blast
qed


section \<open>Properties of \<^verbatim>\<open>C_fun_gen\<close>\<close>

lemma C_fun_loop_initial:
  "C_fun_loop MW [''initial''] ind y t1 C = C_fun_loop MW [''initial''] ind y t2 C"
  by (cases MW) auto

text \<open>
  Claim C10. With \<^verbatim>\<open>fractions == ['initial']\<close> the result of \<^verbatim>\<open>C_fun_gen\<close>, a value or an
  exception, does not depend on the time argument: every iteration of the loop sets
  \<^verbatim>\<open>time = 0\<close> before it reads \<open>y\<close>.
\<close>

theorem C_fun_gen_initial_time_independent:
  "C_fun_gen MW [''initial''] speciesindices y t1
     = C_fun_gen MW [''initial''] speciesindices y t2"
  by (simp add: C_fun_gen_def C_fun_loop_initial [of MW speciesindices y t1 _ t2])


section \<open>Properties of \<^verbatim>\<open>lump_species\<close>\<close>














section \<open>Properties of \<^verbatim>\<open>generate_report\<close>\<close>

lemma mtot_loop_sum:
  "mtot_loop MW ind m ti acc = Inr r \<Longrightarrow>
   \<exists>xs. map (index2 m ti) (tar_columns MW ind) = map Inr xs \<and> r = acc + sum_list xs"
proof (induction MW arbitrary: acc)
  case Nil
  then show ?case by (simp add: tar_columns_def map_filter_simps)
next
  case (Cons sp MW)
  obtain species props where sp: "sp = (species, props)" by (cases sp)
  show ?case
  proof (cases "phase props \<in> set tar_tags")
    case False
    with Cons.prems have "mtot_loop MW ind m ti acc = Inr r" by (simp add: sp)
    from Cons.IH [OF this] show ?thesis
      using False by (simp add: tar_columns_def map_filter_simps sp)
  next
    case True
    from Cons.prems True obtain j where j: "ind species = Some j"
      by (cases "ind species") (simp_all add: sp)
    from Cons.prems True j obtain x where x: "index2 m ti j = Inr x"
      by (cases "index2 m ti j") (simp_all add: sp)
    from Cons.prems True j x have "mtot_loop MW ind m ti (acc + x) = Inr r"
      by (simp add: sp)
    from Cons.IH [OF this] obtain xs where
      xs: "map (index2 m ti) (tar_columns MW ind) = map Inr xs" and r: "r = acc + x + sum_list xs"
      by blast
    have "map (index2 m ti) (tar_columns (sp # MW) ind) = map Inr (x # xs)"
      using True j x xs by (simp add: tar_columns_def map_filter_simps sp)
    moreover have "r = acc + sum_list (x # xs)"
      using r by (simp add: ac_simps)
    ultimately show ?thesis by blast
  qed
qed

lemma example_report_computed:
  "generate_report example_MW example_speciesindices example_y example_m example_t
     (Some ''run'') = Inr example_report"
proof -
  have "\<not> isl (generate_report example_MW example_speciesindices example_y example_m
                  example_t (Some ''run''))"
    by code_simp
  then show ?thesis by (simp add: example_report_def)
qed

text \<open>
  Claim C9. When \<^verbatim>\<open>generate_report\<close> reaches its first \<^verbatim>\<open>print\<close>, the moisture content
  it prints is the mass fraction of the species \<^verbatim>\<open>H2O\<close> in the last row of \<open>m\<close> (the
  time index of the analysis, \<^verbatim>\<open>len(t) - 1\<close>) divided by the sum of the mass fractions,
  in that row, of the species tagged \<^verbatim>\<open>'t'\<close>, \<^verbatim>\<open>'lt'\<close> or \<^verbatim>\<open>'H2O'\<close>.
\<close>

theorem generate_report_moisture:
  assumes "generate_report MW speciesindices y m t which_result = Inr rep"
  shows "\<exists>j w xs. speciesindices ''H2O'' = Some j \<and>
           index2 m (int (length t) - 1) j = Inr w \<and>
           map (index2 m (int (length t) - 1)) (tar_columns MW speciesindices) = map Inr xs \<and>
           mc rep = w / sum_list xs"
proof -
  from assms obtain a where a: "tar_elem_analysis MW speciesindices y t T_end = Inr a"
    unfolding generate_report_def
    by (cases "tar_elem_analysis MW speciesindices y t T_end") simp_all
  have ti: "t_index a = int (length t) - 1"
    using a unfolding tar_elem_analysis_def choose_time_def
    by (auto split: sum.splits simp: Let_def)
  from assms a obtain name where name: "which_result = Some name"
    unfolding generate_report_def by (cases which_result) simp_all
  from assms a name obtain mc0
    where mc0: "moisture_content MW speciesindices m (t_index a) = Inr mc0"
    unfolding generate_report_def
    by (cases "moisture_content MW speciesindices m (t_index a)") simp_all
  from assms a name mc0 have rep: "mc rep = mc0"
    unfolding generate_report_def by (auto split: sum.splits)
  from mc0 obtain mtot where mtot: "mtot_loop MW speciesindices m (t_index a) 0 = Inr mtot"
    unfolding moisture_content_def
    by (cases "mtot_loop MW speciesindices m (t_index a) 0") simp_all
  from mc0 mtot obtain j where j: "speciesindices ''H2O'' = Some j"
    unfolding moisture_content_def by (cases "speciesindices ''H2O''") simp_all
  from mc0 mtot j obtain w where w: "index2 m (t_index a) j = Inr w"
    unfolding moisture_content_def by (cases "index2 m (t_index a) j") simp_all
  from mc0 mtot j w have val: "mc0 = w / mtot"
    unfolding moisture_content_def by simp
  from mtot_loop_sum [OF mtot] obtain xs where
    xs: "map (index2 m (t_index a)) (tar_columns MW speciesindices) = map Inr xs"
    and s: "mtot = sum_list xs"
    by auto
  show ?thesis
    using j w xs unfolding rep val s ti by blast
qed

theorem generate_report_moisture_witness:
  "generate_report example_MW example_speciesindices example_y example_m example_t
     (Some ''run'') = Inr example_report \<and>
   (\<exists>j w xs. example_speciesindices ''H2O'' = Some j \<and>
      index2 example_m (int (length example_t) - 1) j = Inr w \<and>
      map (index2 example_m (int (length example_t) - 1))
          (tar_columns example_MW example_speciesindices) = map Inr xs \<and>
      mc example_report = w / sum_list xs) \<and>
   mc example_report = Fin (1 / 2)"
proof -
  note inst = generate_report_moisture [OF example_report_computed]
  have "mc example_report = Fin (1 / 2)"
    by code_simp
  with example_report_computed inst show ?thesis by blast
qed

end
